theory Spec2Isabelle
  imports Main
begin

section \<open>The VitePress configuration of the electron-vite documentation site\<close>

text \<open>
  The repository holds one source file, \<^verbatim>\<open>packages/en-US/.vitepress/config.ts\<close>: three
  object literals (\<^verbatim>\<open>sidebar\<close>, \<^verbatim>\<open>nav\<close> and the default export) and, behind them, the
  guide page on source code protection. The literals are embedded below field by field.

  Strings are \<^typ>\<open>string\<close>. The two literals of the source that are not ASCII (the
  locale link's text and the copyright sign of the footer) are written as the bytes the
  source file stores for them (UTF-8).

  Field names are the source's, with a prefix where the source uses one name in several
  object types or where the name is taken: \<^verbatim>\<open>text\<close>, \<^verbatim>\<open>link\<close> and \<^verbatim>\<open>items\<close> occur in
  sidebar groups, sidebar items, nav items and locale links; \<^verbatim>\<open>nav\<close> and \<^verbatim>\<open>sidebar\<close> are
  both a constant of the file and a field of \<^verbatim>\<open>themeConfig\<close>.
\<close>

subsection \<open>Object types\<close>

record SidebarItem =
  item_text :: string
  item_link :: string

record SidebarGroup =
  group_text :: string
  group_items :: "SidebarItem list"

text \<open>\<^verbatim>\<open>DefaultTheme.Sidebar\<close>: an object keyed by path prefix, kept in source order.\<close>

type_synonym Sidebar = "(string \<times> SidebarGroup list) list"

record NavItemWithLink =
  nav_text :: string
  nav_link :: string
  activeMatch :: "string option" \<comment> \<open>an optional property: \<open>None\<close> when the literal omits it\<close>

record NavItemWithChildren =
  menu_text :: string
  menu_items :: "NavItemWithLink list"

datatype NavItem = WithLink NavItemWithLink | WithChildren NavItemWithChildren

text \<open>\<^verbatim>\<open>HeadConfig\<close>: a tag name and its attributes.\<close>

type_synonym HeadConfig = "string \<times> (string \<times> string) list"

record Algolia =
  appId :: string
  apiKey :: string
  indexName :: string

record SocialLink =
  icon :: string
  social_link :: string

record LocaleLinks =
  locale_text :: string
  locale_items :: "SidebarItem list"

record Footer =
  message :: string
  copyright :: string

record ThemeConfig =
  algolia :: Algolia
  socialLinks :: "SocialLink list"
  localeLinks :: LocaleLinks
  logo :: string
  footer :: Footer
  theme_nav :: "NavItem list"
  theme_sidebar :: Sidebar

record UserConfig =
  lang :: string
  title :: string
  description :: string
  head :: "HeadConfig list"
  srcDir :: string
  lastUpdated :: bool
  themeConfig :: ThemeConfig

subsection \<open>The literals\<close>

definition sidebar :: Sidebar where
  "sidebar =
    [(''/'',
      [\<lparr>group_text = ''Guide'',
        group_items =
          [\<lparr>item_text = ''Introduction'', item_link = ''/guide/introduction''\<rparr>,
           \<lparr>item_text = ''Getting Started'', item_link = ''/guide/''\<rparr>,
           \<lparr>item_text = ''Features'', item_link = ''/guide/features''\<rparr>,
           \<lparr>item_text = ''CLI'', item_link = ''/guide/cli''\<rparr>,
           \<lparr>item_text = ''Project Structure'', item_link = ''/guide/project-structure''\<rparr>,
           \<lparr>item_text = ''Use HMR in Renderer'', item_link = ''/guide/hmr-in-renderer''\<rparr>,
           \<lparr>item_text = ''Hot Reloading'', item_link = ''/guide/hot-reloading''\<rparr>,
           \<lparr>item_text = ''Building for Production'', item_link = ''/guide/build''\<rparr>,
           \<lparr>item_text = ''Env Variables and Modes'', item_link = ''/guide/env-and-mode''\<rparr>,
           \<lparr>item_text = ''Multiple Windows'', item_link = ''/guide/mutli-windows''\<rparr>,
           \<lparr>item_text = ''Debugging in VSCode'', item_link = ''/guide/debugging''\<rparr>]\<rparr>,
       \<lparr>group_text = ''Config'',
        group_items = [\<lparr>item_text = ''Config Reference'', item_link = ''/config/''\<rparr>]\<rparr>,
       \<lparr>group_text = ''API'',
        group_items = [\<lparr>item_text = ''API Reference'', item_link = ''/api/''\<rparr>]\<rparr>])]"

definition nav :: "NavItem list" where
  "nav =
    [WithLink \<lparr>nav_text = ''Guide'', nav_link = ''/guide/'',
       activeMatch = Some ''^/guide|api|about/''\<rparr>,
     WithLink \<lparr>nav_text = ''Config'', nav_link = ''/config/'',
       activeMatch = Some ''^/config/''\<rparr>,
     WithChildren \<lparr>menu_text = ''Links'',
       menu_items =
         [\<lparr>nav_text = ''Vite'', nav_link = ''https://vitejs.dev/'', activeMatch = None\<rparr>,
          \<lparr>nav_text = ''create-electron'',
           nav_link = ''https://github.com/alex8088/quick-start/tree/master/packages/create-electron'',
           activeMatch = None\<rparr>]\<rparr>,
     WithChildren \<lparr>menu_text = ''v1.0.7'',
       menu_items =
         [\<lparr>nav_text = ''Changelog'',
           nav_link = ''https://github.com/alex8088/electron-vite/blob/master/CHANGELOG.md'',
           activeMatch = None\<rparr>]\<rparr>]"

text \<open>
  \<^verbatim>\<open>defineConfig\<close> is imported from \<^verbatim>\<open>vitepress\<close>, where it is a typing helper that returns
  its argument.
\<close>

definition defineConfig :: "UserConfig \<Rightarrow> UserConfig" where
  "defineConfig c = c"

definition export_default :: UserConfig where
  "export_default = defineConfig
    \<lparr>lang = ''en-US'',
     title = ''electron-vite'',
     description = ''Next generation Electron build tooling based on Vite.'',
     head =
       [(''link'',
         [(''rel'', ''icon''), (''href'', ''/favicon.svg''), (''type'', ''image/svg+xml'')])],
     srcDir = ''docs'',
     lastUpdated = True,
     themeConfig =
       \<lparr>algolia = \<lparr>appId = '''', apiKey = '''', indexName = ''''\<rparr>,
        socialLinks =
          [\<lparr>icon = ''github'', social_link = ''https://github.com/alex8088/electron-vite''\<rparr>],
        localeLinks =
          \<lparr>locale_text = ''English'',
           locale_items =
             [\<lparr>item_text =
                 [CHR 0xE7, CHR 0xAE, CHR 0x80, CHR 0xE4, CHR 0xBD, CHR 0x93,
                  CHR 0xE4, CHR 0xB8, CHR 0xAD, CHR 0xE6, CHR 0x96, CHR 0x87],
               item_link = ''https://cn-evite.netlify.app/''\<rparr>]\<rparr>,
        logo = ''/favicon.svg'',
        footer =
          \<lparr>message = ''Released under the MIT License'',
           copyright =
             ''Copyright '' @ [CHR 0xC2, CHR 0xA9] @
             '' 2022-present Alex Wei & Powered by Vite''\<rparr>,
        theme_nav = nav,
        theme_sidebar = sidebar\<rparr>\<rparr>"

subsection \<open>String tests of the host language\<close>

text \<open>\<^verbatim>\<open>s.startsWith(t)\<close> and \<^verbatim>\<open>s.includes(t)\<close> of JavaScript.\<close>

definition startsWith :: "string \<Rightarrow> string \<Rightarrow> bool" where
  "startsWith s t = (take (length t) s = t)"

fun str_includes :: "string \<Rightarrow> string \<Rightarrow> bool" where
  "str_includes [] t = (t = [])"
| "str_includes (c # cs) t = (startsWith (c # cs) t \<or> str_includes cs t)"

text \<open>
  The guide page describes \<^verbatim>\<open>bytecodePlugin\<close> of the \<^verbatim>\<open>electron-vite\<close> package. The plugin
  is imported there, not implemented in this repository; the one function the page
  itself defines is the chunk assignment of its example configuration:
  \<^verbatim>\<open>manualChunks(id): string | void { if (id.includes('foo')) { return 'foo' } }\<close>.
  The bundler calls it with a module identifier; the result names the chunk the module
  goes to, and \<open>None\<close> is the \<^verbatim>\<open>void\<close> result.
\<close>

definition manualChunks :: "string \<Rightarrow> string option" where
  "manualChunks id' = (if str_includes id' ''foo'' then Some ''foo'' else None)"

subsection \<open>Regular expressions: the fragment the configuration uses\<close>

text \<open>
  An \<^verbatim>\<open>activeMatch\<close> string is a regular expression source: the theme builds
  \<^verbatim>\<open>new RegExp(activeMatch)\<close> and tests the current path with it. The two patterns of
  the file use ordinary characters, the assertion \<^verbatim>\<open>^\<close> and the alternation \<^verbatim>\<open>|\<close> only.
  In the grammar of the language a pattern is a disjunction of alternatives and an
  alternative is a sequence of terms, so \<^verbatim>\<open>|\<close> binds weaker than sequencing and an
  assertion belongs to the alternative it is written in.

  A pattern that uses any other syntax character is outside the fragment and is not
  parsed (\<open>None\<close>), so nothing is claimed about it.
\<close>

datatype atom = Bol | Chr char

type_synonym regexp = "atom list list"

definition syntax_characters :: "char list" where
  "syntax_characters =
    [CHR ''$'', CHR 0x5C, CHR ''.'', CHR ''*'', CHR ''+'', CHR ''?'',
     CHR ''('', CHR '')'', CHR ''['', CHR '']'', CHR ''{'', CHR ''}'']"

definition parse_term :: "char \<Rightarrow> atom option" where
  "parse_term c =
    (if c = CHR ''^'' then Some Bol
     else if c \<in> set syntax_characters then None
     else Some (Chr c))"

fun parse_disjunction :: "string \<Rightarrow> regexp option" where
  "parse_disjunction [] = Some [[]]"
| "parse_disjunction (c # cs) =
    (case parse_disjunction cs of
       None \<Rightarrow> None
     | Some [] \<Rightarrow> None
     | Some (a # as) \<Rightarrow>
         if c = CHR ''|'' then Some ([] # a # as)
         else (case parse_term c of
                 None \<Rightarrow> None
               | Some t \<Rightarrow> Some ((t # a) # as)))"

definition RegExp :: "string \<Rightarrow> regexp option" where
  "RegExp pattern = parse_disjunction pattern"

text \<open>
  Matching one alternative at one position: \<open>at_start\<close> says that the position is index
  0 of the subject, which is what \<^verbatim>\<open>^\<close> asserts (no multiline flag); \<open>rest\<close> is the
  subject from the position on.
\<close>

fun match_here :: "atom list \<Rightarrow> bool \<Rightarrow> string \<Rightarrow> bool" where
  "match_here [] at_start rest = True"
| "match_here (Bol # ts) at_start rest = (at_start \<and> match_here ts at_start rest)"
| "match_here (Chr c # ts) at_start [] = False"
| "match_here (Chr c # ts) at_start (d # rest) = (c = d \<and> match_here ts False rest)"

text \<open>
  \<^verbatim>\<open>RegExp.prototype.test\<close> without the sticky flag: the match is tried at every index
  from 0 to the length of the subject, and at each index the alternatives are tried in
  turn.
\<close>

fun search :: "regexp \<Rightarrow> bool \<Rightarrow> string \<Rightarrow> bool" where
  "search r at_start [] = list_ex (\<lambda>a. match_here a at_start []) r"
| "search r at_start (d # rest) =
    (list_ex (\<lambda>a. match_here a at_start (d # rest)) r \<or> search r False rest)"

definition test :: "regexp \<Rightarrow> string \<Rightarrow> bool" where
  "test r s = search r True s"

text \<open>
  Whether a nav item's \<^verbatim>\<open>activeMatch\<close> matches a path:
  \<^verbatim>\<open>new RegExp(item.activeMatch).test(path)\<close>. An item without the property, or with a
  pattern outside the fragment, gives \<open>None\<close>.
\<close>

definition activeMatch_test :: "NavItemWithLink \<Rightarrow> string \<Rightarrow> bool option" where
  "activeMatch_test item path =
    (case activeMatch item of
       None \<Rightarrow> None
     | Some pattern \<Rightarrow>
         (case RegExp pattern of
            None \<Rightarrow> None
          | Some r \<Rightarrow> Some (test r path)))"

text \<open>The first entry of \<^verbatim>\<open>nav\<close>, the item whose text is \<^verbatim>\<open>Guide\<close>.\<close>

definition guide_item :: NavItemWithLink where
  "guide_item =
    (case nav of
       WithLink item # _ \<Rightarrow> item
     | _ \<Rightarrow> \<lparr>nav_text = [], nav_link = [], activeMatch = None\<rparr>)"

section \<open>Facts about the string tests and the matcher\<close>

subsection \<open>Prefixes and substrings\<close>

lemma startsWith_iff: "startsWith s t \<longleftrightarrow> (\<exists>ys. s = t @ ys)"
  unfolding startsWith_def
  by (metis append_eq_conv_conj append_take_drop_id)

lemma startsWith_Nil [simp]: "startsWith s []"
  by (simp add: startsWith_def)

lemma startsWith_Nil_left [simp]: "startsWith [] t \<longleftrightarrow> t = []"
  by (auto simp add: startsWith_def)

lemma startsWith_Cons [simp]: "startsWith (c # s) (d # t) \<longleftrightarrow> c = d \<and> startsWith s t"
  by (auto simp add: startsWith_def)

lemma str_includes_iff: "str_includes s t \<longleftrightarrow> (\<exists>xs ys. s = xs @ t @ ys)"
proof (induction s)
  case Nil
  then show ?case by auto
next
  case (Cons c cs)
  show ?case
  proof
    assume "str_includes (c # cs) t"
    then consider "startsWith (c # cs) t" | "str_includes cs t" by auto
    then show "\<exists>xs ys. c # cs = xs @ t @ ys"
    proof cases
      case 1
      then obtain ys where "c # cs = t @ ys" by (auto simp: startsWith_iff)
      then have "c # cs = [] @ t @ ys" by simp
      then show ?thesis by blast
    next
      case 2
      then obtain xs ys where "cs = xs @ t @ ys" using Cons.IH by blast
      then have "c # cs = (c # xs) @ t @ ys" by simp
      then show ?thesis by blast
    qed
  next
    assume "\<exists>xs ys. c # cs = xs @ t @ ys"
    then obtain xs ys where e: "c # cs = xs @ t @ ys" by blast
    show "str_includes (c # cs) t"
    proof (cases xs)
      case Nil
      with e have "startsWith (c # cs) t" by (auto simp: startsWith_iff)
      then show ?thesis by simp
    next
      case (Cons x xs')
      with e have "cs = xs' @ t @ ys" by simp
      then have "str_includes cs t" using Cons.IH by blast
      then show ?thesis by simp
    qed
  qed
qed

lemma manualChunks_iff:
  "manualChunks m = Some c \<longleftrightarrow> c = ''foo'' \<and> (\<exists>xs ys. m = xs @ ''foo'' @ ys)"
  by (auto simp add: manualChunks_def str_includes_iff)

subsection \<open>What the matcher decides\<close>

lemma match_here_Chr: "match_here (map Chr t) at_start s = startsWith s t"
proof (induction t arbitrary: s at_start)
  case Nil
  show ?case by simp
next
  case (Cons c t)
  show ?case by (cases s) (auto simp add: Cons.IH)
qed

lemma search_anchored:
  "search [Bol # map Chr t] at_start s = (at_start \<and> startsWith s t)"
proof (induction s arbitrary: at_start)
  case Nil
  show ?case by (auto simp: match_here_Chr)
next
  case (Cons d s)
  show ?case by (auto simp: match_here_Chr Cons.IH)
qed

lemma search_three:
  "search [Bol # map Chr t1, map Chr t2, map Chr t3] at_start s =
     (at_start \<and> startsWith s t1 \<or> str_includes s t2 \<or> str_includes s t3)"
proof (induction s arbitrary: at_start)
  case Nil
  show ?case by (auto simp: match_here_Chr)
next
  case (Cons d s)
  show ?case by (auto simp: match_here_Chr Cons.IH)
qed

subsection \<open>The two patterns of the navigation bar\<close>

lemma RegExp_guide:
  "RegExp ''^/guide|api|about/'' =
     Some [Bol # map Chr ''/guide'', map Chr ''api'', map Chr ''about/'']"
  by (simp add: RegExp_def parse_term_def syntax_characters_def)

lemma RegExp_config: "RegExp ''^/config/'' = Some [Bol # map Chr ''/config/'']"
  by (simp add: RegExp_def parse_term_def syntax_characters_def)

lemma guide_item_eq:
  "guide_item =
     \<lparr>nav_text = ''Guide'', nav_link = ''/guide/'', activeMatch = Some ''^/guide|api|about/''\<rparr>"
  by (simp add: guide_item_def nav_def)

lemma guide_activeMatch_iff:
  "activeMatch_test guide_item path =
     Some (startsWith path ''/guide'' \<or> str_includes path ''api'' \<or> str_includes path ''about/'')"
proof -
  have "test [Bol # map Chr ''/guide'', map Chr ''api'', map Chr ''about/''] path =
      (startsWith path ''/guide'' \<or> str_includes path ''api'' \<or> str_includes path ''about/'')"
    unfolding test_def search_three by simp
  then show ?thesis
    unfolding activeMatch_test_def guide_item_eq by (simp add: RegExp_guide)
qed

lemma config_activeMatch_iff:
  "activeMatch_test
     \<lparr>nav_text = ''Config'', nav_link = ''/config/'', activeMatch = Some ''^/config/''\<rparr> path =
     Some (startsWith path ''/config/'')"
proof -
  have "test [Bol # map Chr ''/config/''] path = startsWith path ''/config/''"
    unfolding test_def search_anchored by simp
  then show ?thesis
    unfolding activeMatch_test_def by (simp add: RegExp_config)
qed

section \<open>Properties of the configuration\<close>

text \<open>
  Claim C9. The \<^verbatim>\<open>Guide\<close> item, the first entry of \<^verbatim>\<open>nav\<close>, has the \<^verbatim>\<open>activeMatch\<close>
  pattern \<^verbatim>\<open>^/guide|api|about/\<close>. The pattern matches a path exactly when the path starts
  with \<^verbatim>\<open>/guide\<close>, or contains \<^verbatim>\<open>api\<close> anywhere, or contains \<^verbatim>\<open>about/\<close> anywhere: the
  anchor \<^verbatim>\<open>^\<close> belongs to the first alternative only. So every path with \<^verbatim>\<open>api\<close> or
  \<^verbatim>\<open>about/\<close> somewhere inside it is matched, for example \<^verbatim>\<open>/config/api-reference\<close>, which
  begins with none of \<^verbatim>\<open>/guide\<close>, \<^verbatim>\<open>/api\<close> and \<^verbatim>\<open>/about/\<close>.
\<close>

theorem guide_activeMatch_unanchored:
  "nav ! 0 = WithLink guide_item
   \<and> nav_text guide_item = ''Guide''
   \<and> activeMatch guide_item = Some ''^/guide|api|about/''
   \<and> activeMatch_test guide_item path =
       Some (startsWith path ''/guide'' \<or> str_includes path ''api'' \<or> str_includes path ''about/'')
   \<and> (path = pre @ ''api'' @ post \<or> path = pre @ ''about/'' @ post
        \<longrightarrow> activeMatch_test guide_item path = Some True)
   \<and> activeMatch_test guide_item ''/config/api-reference'' = Some True
   \<and> \<not> startsWith ''/config/api-reference'' ''/guide''
   \<and> \<not> startsWith ''/config/api-reference'' ''/api''
   \<and> \<not> startsWith ''/config/api-reference'' ''/about/''"
proof -
  have item: "nav ! 0 = WithLink guide_item" "nav_text guide_item = ''Guide''"
    "activeMatch guide_item = Some ''^/guide|api|about/''"
    by (simp_all add: guide_item_eq nav_def)
  have anywhere: "activeMatch_test guide_item path = Some True"
    if "path = pre @ ''api'' @ post \<or> path = pre @ ''about/'' @ post"
  proof -
    from that have "str_includes path ''api'' \<or> str_includes path ''about/''"
      unfolding str_includes_iff by blast
    then show ?thesis unfolding guide_activeMatch_iff by simp
  qed
  have "''/config/api-reference'' = ''/config/'' @ ''api'' @ ''-reference''"
    by simp
  then have "str_includes ''/config/api-reference'' ''api''"
    unfolding str_includes_iff by blast
  then have example: "activeMatch_test guide_item ''/config/api-reference'' = Some True"
    unfolding guide_activeMatch_iff by simp
  have starts: "\<not> startsWith ''/config/api-reference'' ''/guide''"
    "\<not> startsWith ''/config/api-reference'' ''/api''"
    "\<not> startsWith ''/config/api-reference'' ''/about/''"
    by (simp_all add: startsWith_def)
  from item guide_activeMatch_iff [of path] anywhere example starts show ?thesis
    by blast
qed

text \<open>
  The theorem at the path \<^verbatim>\<open>/docs/about/\<close>, which contains \<^verbatim>\<open>about/\<close> after the prefix
  \<^verbatim>\<open>/docs/\<close> and does not begin with \<^verbatim>\<open>/about/\<close>.
\<close>

theorem guide_activeMatch_unanchored_witness:
  "''/docs/about/'' = ''/docs/'' @ ''about/'' @ []
   \<and> activeMatch_test guide_item ''/docs/about/'' = Some True
   \<and> \<not> startsWith ''/docs/about/'' ''/about/''"
  using guide_activeMatch_unanchored [of "''/docs/about/''" "''/docs/''" "[]"]
  by (simp add: startsWith_def)

text \<open>
  Claim C10. The default export is a constant: \<^const>\<open>export_default\<close> has no parameter,
  and nothing in it is read from an environment. Its three Algolia fields,
  \<^verbatim>\<open>themeConfig.algolia.appId\<close>, \<^verbatim>\<open>themeConfig.algolia.apiKey\<close> and
  \<^verbatim>\<open>themeConfig.algolia.indexName\<close>, are the empty string.
\<close>

theorem algolia_unconfigured:
  "appId (algolia (themeConfig export_default)) = []
   \<and> apiKey (algolia (themeConfig export_default)) = []
   \<and> indexName (algolia (themeConfig export_default)) = []"
  by (simp add: export_default_def defineConfig_def)

end
